theory Spec2Isabelle
  imports Main "HOL-Library.AList" "HOL-Library.Multiset"
begin

section \<open>Cards and the deck (game.js: class Card, class Deck)\<close>

text \<open>
  The deck builds cards from four suit names and thirteen rank names only, so both are
  modelled as enumerations. The order of the constructors is the order of the arrays
  \<^verbatim>\<open>suits\<close> and \<^verbatim>\<open>ranks\<close> in \<^verbatim>\<open>Deck.initialize\<close>.
\<close>

datatype suit = Clubs | Diamonds | Hearts | Spades

datatype rank = R2 | R3 | R4 | R5 | R6 | R7 | R8 | R9 | R10 | Jack | Queen | King | Ace

datatype card = Card (suit: suit) (rank: rank)

text \<open>\<^verbatim>\<open>Card.getValue\<close>: the lookup table from rank to comparison value.\<close>

fun rankValue :: "rank \<Rightarrow> int" where
  "rankValue R2 = 2"
| "rankValue R3 = 3"
| "rankValue R4 = 4"
| "rankValue R5 = 5"
| "rankValue R6 = 6"
| "rankValue R7 = 7"
| "rankValue R8 = 8"
| "rankValue R9 = 9"
| "rankValue R10 = 10"
| "rankValue Jack = 11"
| "rankValue Queen = 12"
| "rankValue King = 13"
| "rankValue Ace = 14"

definition getValue :: "card \<Rightarrow> int" where
  "getValue c = rankValue (rank c)"

definition suits :: "suit list" where
  "suits = [Clubs, Diamonds, Hearts, Spades]"

definition ranks :: "rank list" where
  "ranks = [R2, R3, R4, R5, R6, R7, R8, R9, R10, Jack, Queen, King, Ace]"

text \<open>\<^verbatim>\<open>Deck.initialize\<close>: for each suit, for each rank, push the card.\<close>

definition initialize :: "card list" where
  "initialize = concat (map (\<lambda>s. map (\<lambda>r. Card s r) ranks) suits)"

text \<open>
  \<^verbatim>\<open>Deck.shuffle\<close> (Fisher-Yates). The loop runs \<open>i\<close> from \<open>length - 1\<close> down to \<open>1\<close>
  and swaps positions \<open>i\<close> and \<open>j\<close>, where \<open>j = Math.floor(Math.random() * (i + 1))\<close>.
  The random source is a parameter: \<open>rnd i\<close> is the index drawn in the iteration for
  \<open>i\<close>. \<open>Math.random()\<close> lies in \<open>[0, 1)\<close>, so the drawn index is at most \<open>i\<close>;
  \<open>draws_in_range\<close> says so.
\<close>

fun shuffle_from :: "(nat \<Rightarrow> nat) \<Rightarrow> nat \<Rightarrow> card list \<Rightarrow> card list" where
  "shuffle_from rnd 0 cards = cards"
| "shuffle_from rnd (Suc k) cards =
     (let i = Suc k; j = rnd i
      in shuffle_from rnd k (cards[i := cards ! j, j := cards ! i]))"

definition shuffle :: "(nat \<Rightarrow> nat) \<Rightarrow> card list \<Rightarrow> card list" where
  "shuffle rnd cards = shuffle_from rnd (length cards - 1) cards"

definition draws_in_range :: "(nat \<Rightarrow> nat) \<Rightarrow> bool" where
  "draws_in_range rnd = (\<forall>i. rnd i \<le> i)"

text \<open>
  \<^verbatim>\<open>Deck.deal(n)\<close> is \<^verbatim>\<open>cards.splice(0, n)\<close>: it returns the first \<open>n\<close>
  cards (fewer when the deck is shorter) and leaves the rest in the deck.
\<close>

definition deal :: "nat \<Rightarrow> card list \<Rightarrow> card list \<times> card list" where
  "deal n cards = (take n cards, drop n cards)"

section \<open>The game state (game.js: class GameState)\<close>

text \<open>
  The two sides are the strings \<^verbatim>\<open>'player'\<close> and \<^verbatim>\<open>'ai'\<close>; the fields
  \<^verbatim>\<open>leadPlayer\<close> and \<^verbatim>\<open>currentPlayer\<close> start as \<^verbatim>\<open>null\<close>, which is \<open>None\<close>.
\<close>

datatype player = Player | Ai

text \<open>A thrown JavaScript exception.\<close>

datatype error = TypeError

text \<open>A JavaScript number that holds an integer or \<^verbatim>\<open>NaN\<close>.\<close>

datatype jsnumber = NaN | Num int

text \<open>
  One entry of \<^verbatim>\<open>trickHistory\<close>. The fields are \<^verbatim>\<open>trickNumber\<close>, \<^verbatim>\<open>leadCard\<close>,
  \<^verbatim>\<open>followCard\<close>, \<^verbatim>\<open>leadPlayer\<close> and \<^verbatim>\<open>winner\<close>; the three that share a name with a
  field of the game state carry the prefix \<open>trick\<close>.
\<close>

record Trick =
  trickNumber :: int
  trickLeadCard :: card
  trickFollowCard :: card
  trickLeadPlayer :: "player option"
  winner :: "player option"

text \<open>
  The fields of \<^verbatim>\<open>GameState\<close>. \<open>deck\<close> is \<^verbatim>\<open>deck.cards\<close>. \<open>soundEnabled\<close> is not
  set by the constructor, so it is \<^verbatim>\<open>undefined\<close> (\<open>None\<close>) until settings set it.
\<close>

record GameState =
  deck :: "card list"
  playerHand :: "card list"
  aiHand :: "card list"
  playerScore :: int
  aiScore :: int
  scoreGoal :: jsnumber
  currentTrick :: int
  leadCard :: "card option"
  followCard :: "card option"
  leadPlayer :: "player option"
  currentPlayer :: "player option"
  playedCards :: "(card \<times> player) list"
  trickHistory :: "Trick list"
  gameActive :: bool
  roundActive :: bool
  aiDifficulty :: string
  selectedCardBack :: string
  soundEnabled :: "bool option"

text \<open>The constructor's assignments, before it calls \<^verbatim>\<open>loadSettings\<close>.\<close>

definition constructed :: GameState where
  "constructed =
     \<lparr>deck = initialize, playerHand = [], aiHand = [], playerScore = 0, aiScore = 0,
      scoreGoal = Num 5, currentTrick = 0, leadCard = None, followCard = None,
      leadPlayer = None, currentPlayer = None, playedCards = [], trickHistory = [],
      gameActive = False, roundActive = False, aiDifficulty = ''medium'',
      selectedCardBack = ''blue.svg'', soundEnabled = None\<rparr>"

subsection \<open>Starting a round\<close>

definition startNewRound :: "(nat \<Rightarrow> nat) \<Rightarrow> GameState \<Rightarrow> GameState" where
  "startNewRound rnd s =
     (let cards = shuffle rnd initialize;
          (ph, cards1) = deal 5 cards;
          (ah, cards2) = deal 5 cards1
      in s\<lparr>deck := cards2, playerHand := ph, aiHand := ah,
            currentTrick := 1, leadCard := None, followCard := None,
            playedCards := [], trickHistory := [],
            leadPlayer := Some Player, currentPlayer := Some Player,
            gameActive := True, roundActive := True\<rparr>)"

definition startNewMatch :: "(nat \<Rightarrow> nat) \<Rightarrow> GameState \<Rightarrow> GameState" where
  "startNewMatch rnd s = startNewRound rnd (s\<lparr>playerScore := 0, aiScore := 0\<rparr>)"

subsection \<open>Legality of a play\<close>

text \<open>\<^verbatim>\<open>player === 'player' ? this.playerHand : this.aiHand\<close>\<close>

definition handOf :: "GameState \<Rightarrow> player \<Rightarrow> card list" where
  "handOf s p = (if p = Player then playerHand s else aiHand s)"

definition canPlayCard :: "GameState \<Rightarrow> card \<Rightarrow> player \<Rightarrow> bool" where
  "canPlayCard s c p =
     (if currentPlayer s \<noteq> Some p then False
      else case leadCard s of
        None \<Rightarrow> True
      | Some l \<Rightarrow>
          (let hand = handOf s p;
               hasSuit = list_ex (\<lambda>h. suit h = suit l) hand
           in if hasSuit then suit c = suit l else True))"

definition getValidCards :: "GameState \<Rightarrow> player \<Rightarrow> card list" where
  "getValidCards s p =
     (let hand = handOf s p
      in case leadCard s of
        None \<Rightarrow> hand
      | Some l \<Rightarrow>
          (let sameSuit = filter (\<lambda>c. suit c = suit l) hand
           in if length sameSuit > 0 then sameSuit else hand))"

subsection \<open>Resolving a trick\<close>

text \<open>
  \<^verbatim>\<open>evaluateTrick\<close> reads \<^verbatim>\<open>this.leadCard.suit\<close> and \<^verbatim>\<open>this.followCard.suit\<close>: with
  either slot \<^verbatim>\<open>null\<close> it throws a TypeError. It returns \<^verbatim>\<open>'game_over'\<close> or
  \<^verbatim>\<open>'trick_complete'\<close>. It does not clear the two slots.
\<close>

definition otherPlayer :: "player option \<Rightarrow> player option" where
  "otherPlayer lp = (if lp = Some Player then Some Ai else Some Player)"

definition evaluateTrick :: "GameState \<Rightarrow> error + (string \<times> GameState)" where
  "evaluateTrick s =
     (case leadCard s of
        None \<Rightarrow> Inl TypeError
      | Some l \<Rightarrow>
         (case followCard s of
            None \<Rightarrow> Inl TypeError
          | Some f \<Rightarrow>
             (let leadSuit = suit l;
                  w = (if suit f = leadSuit
                       then (if getValue l > getValue f then leadPlayer s
                             else otherPlayer (leadPlayer s))
                       else leadPlayer s);
                  s1 = s\<lparr>trickHistory := trickHistory s @
                         [\<lparr>trickNumber = currentTrick s, trickLeadCard = l,
                           trickFollowCard = f, trickLeadPlayer = leadPlayer s,
                           winner = w\<rparr>]\<rparr>
              in if currentTrick s1 = 5
                 then (let s2 = (if w = Some Player
                                 then s1\<lparr>playerScore := playerScore s1 + 1\<rparr>
                                 else s1\<lparr>aiScore := aiScore s1 + 1\<rparr>)
                       in Inr (''game_over'', s2\<lparr>gameActive := False\<rparr>))
                 else Inr (''trick_complete'',
                           s1\<lparr>leadPlayer := w, currentPlayer := w,
                              currentTrick := currentTrick s1 + 1\<rparr>))))"

definition clearTrick :: "GameState \<Rightarrow> GameState" where
  "clearTrick s = s\<lparr>leadCard := None, followCard := None, playedCards := []\<rparr>"

subsection \<open>Playing a card\<close>

text \<open>\<^verbatim>\<open>Array.prototype.findIndex\<close>; \<open>None\<close> is \<^verbatim>\<open>-1\<close>.\<close>

fun findIndex :: "('a \<Rightarrow> bool) \<Rightarrow> 'a list \<Rightarrow> nat option" where
  "findIndex P [] = None"
| "findIndex P (x # xs) =
     (if P x then Some 0 else map_option Suc (findIndex P xs))"

text \<open>\<^verbatim>\<open>hand.splice(index, 1)\<close>: the hand without the element at \<open>index\<close>.\<close>

definition splice1 :: "nat \<Rightarrow> 'a list \<Rightarrow> 'a list" where
  "splice1 i xs = take i xs @ drop (Suc i) xs"

definition setHand :: "player \<Rightarrow> card list \<Rightarrow> GameState \<Rightarrow> GameState" where
  "setHand p h s = (if p = Player then s\<lparr>playerHand := h\<rparr> else s\<lparr>aiHand := h\<rparr>)"

definition playCard :: "GameState \<Rightarrow> card \<Rightarrow> player \<Rightarrow> error + (bool \<times> GameState)" where
  "playCard s c p =
     (if \<not> canPlayCard s c p then Inr (False, s)
      else
        (let hand = handOf s p;
             s1 = (case findIndex (\<lambda>h. suit h = suit c \<and> rank h = rank c) hand of
                     None \<Rightarrow> s
                   | Some i \<Rightarrow> setHand p (splice1 i hand) s)
         in if leadCard s1 = None
            then Inr (True, s1\<lparr>leadCard := Some c, leadPlayer := Some p,
                               playedCards := playedCards s1 @ [(c, p)],
                               currentPlayer := Some (if p = Player then Ai else Player)\<rparr>)
            else (case evaluateTrick
                         (s1\<lparr>followCard := Some c,
                             playedCards := playedCards s1 @ [(c, p)]\<rparr>) of
                    Inl e \<Rightarrow> Inl e
                  | Inr (r, s2) \<Rightarrow> Inr (True, s2))))"

subsection \<open>The redeal rule\<close>

text \<open>
  \<^verbatim>\<open>Math.max(...values)\<close>: with no argument the result is \<^verbatim>\<open>-Infinity\<close>, which is
  below every number.
\<close>

datatype extnum = NegInfinity | Fin int

fun math_max2 :: "extnum \<Rightarrow> int \<Rightarrow> extnum" where
  "math_max2 NegInfinity v = Fin v"
| "math_max2 (Fin a) v = Fin (max a v)"

definition math_max :: "int list \<Rightarrow> extnum" where
  "math_max vs = foldl math_max2 NegInfinity vs"

fun ext_le :: "extnum \<Rightarrow> int \<Rightarrow> bool" where
  "ext_le NegInfinity b = True"
| "ext_le (Fin a) b = (a \<le> b)"

definition handQualifiesForRedeal :: "card list \<Rightarrow> bool" where
  "handQualifiesForRedeal hand =
     (let highestValue = math_max (map getValue hand) in ext_le highestValue 9)"

definition redealHand :: "player \<Rightarrow> GameState \<Rightarrow> GameState" where
  "redealHand p s =
     (let (h, rest) = deal 5 (deck s)
      in if p = Player then s\<lparr>playerHand := h, deck := rest\<rparr>
         else s\<lparr>aiHand := h, deck := rest\<rparr>)"

subsection \<open>Loading the persisted settings\<close>

text \<open>
  \<^verbatim>\<open>parseInt(string)\<close> with no radix, as ECMAScript defines it: leading white space is
  skipped, then an optional sign, then an optional \<^verbatim>\<open>0x\<close> or \<^verbatim>\<open>0X\<close> (radix 16, else
  radix 10), then the longest run of digits of the radix; with no digit the result is
  \<^verbatim>\<open>NaN\<close>. A string is a list of bytes here, so only the ASCII white space is
  skipped, and the value is the exact integer (a double rounds it beyond \<open>2^53\<close>).
\<close>

definition isWhiteSpace :: "char \<Rightarrow> bool" where
  "isWhiteSpace c = (of_char c \<in> {9, 10, 11, 12, 13, 32 :: nat})"

definition digitValue :: "char \<Rightarrow> nat option" where
  "digitValue c =
     (let n = (of_char c :: nat)
      in if 48 \<le> n \<and> n \<le> 57 then Some (n - 48)
         else if 97 \<le> n \<and> n \<le> 122 then Some (n - 87)
         else if 65 \<le> n \<and> n \<le> 90 then Some (n - 55)
         else None)"

definition digitOf :: "nat \<Rightarrow> char \<Rightarrow> nat option" where
  "digitOf radix c =
     (case digitValue c of
        None \<Rightarrow> None
      | Some d \<Rightarrow> if d < radix then Some d else None)"

definition parseInt :: "string \<Rightarrow> jsnumber" where
  "parseInt str =
     (let s = dropWhile isWhiteSpace str;
          (sign, s1) = (case s of
                          [] \<Rightarrow> (1 :: int, s)
                        | c # r \<Rightarrow> if c = CHR ''-'' then (- 1, r)
                                   else if c = CHR ''+'' then (1, r) else (1, s));
          (radix, s2) = (case s1 of
                           a # b # r \<Rightarrow>
                             if a = CHR ''0'' \<and> (b = CHR ''x'' \<or> b = CHR ''X'')
                             then (16 :: nat, r) else (10, s1)
                         | _ \<Rightarrow> (10, s1));
          z = takeWhile (\<lambda>c. digitOf radix c \<noteq> None) s2
      in if z = [] then NaN
         else Num (sign * int (foldl (\<lambda>acc c. acc * radix +
                                   (case digitOf radix c of None \<Rightarrow> 0 | Some d \<Rightarrow> d)) 0 z)))"

text \<open>
  \<^verbatim>\<open>localStorage.getItem\<close> returns the stored string, or \<^verbatim>\<open>null\<close> for a missing key.
  \<^verbatim>\<open>if (saved)\<close> holds for a string that is neither \<^verbatim>\<open>null\<close> nor empty.
\<close>

type_synonym storage = "string \<Rightarrow> string option"

text \<open>\<open>whenTruthy saved f s\<close> is \<^verbatim>\<open>if (saved) { ... }\<close> with the body \<open>f\<close>.\<close>

definition whenTruthy ::
  "string option \<Rightarrow> (string \<Rightarrow> GameState \<Rightarrow> GameState) \<Rightarrow> GameState \<Rightarrow> GameState" where
  "whenTruthy saved f s =
     (case saved of
        None \<Rightarrow> s
      | Some str \<Rightarrow> if str = [] then s else f str s)"

definition loadSettings :: "storage \<Rightarrow> GameState \<Rightarrow> GameState" where
  "loadSettings getItem s =
     (let savedDifficulty = getItem ''aiDifficulty'';
          savedCardBack = getItem ''cardBack'';
          savedGoal = getItem ''scoreGoal'';
          s1 = whenTruthy savedDifficulty (\<lambda>v st. st\<lparr>aiDifficulty := v\<rparr>) s;
          s2 = whenTruthy savedCardBack (\<lambda>v st. st\<lparr>selectedCardBack := v\<rparr>) s1;
          s3 = whenTruthy savedGoal (\<lambda>v st. st\<lparr>scoreGoal := parseInt v\<rparr>) s2;
          savedSound = getItem ''soundEnabled''
      in case savedSound of
           None \<Rightarrow> s3
         | Some v \<Rightarrow> s3\<lparr>soundEnabled := Some (v = ''true'')\<rparr>)"

text \<open>\<^verbatim>\<open>new GameState()\<close>: the constructor's assignments, then \<^verbatim>\<open>loadSettings\<close>.\<close>

definition newGameState :: "storage \<Rightarrow> GameState" where
  "newGameState getItem = loadSettings getItem constructed"

section \<open>The strategies of the computer opponent (ai.js: class AI)\<close>

text \<open>
  The fields of \<^verbatim>\<open>AI\<close> other than the reference \<^verbatim>\<open>this.game\<close>, which the functions
  below take as an argument. \<open>aiPlayedCards\<close> is \<^verbatim>\<open>this.playedCards\<close>.
\<close>

record AI =
  aiPlayedCards :: "card list"
  opponentVoidSuits :: "suit set"

text \<open>
  \<^verbatim>\<open>cards.reduce(f)\<close> with no initial value starts from the first element and throws a
  TypeError on an empty array.
\<close>

definition getLowestCard :: "card list \<Rightarrow> error + card" where
  "getLowestCard cards =
     (case cards of
        [] \<Rightarrow> Inl TypeError
      | c # cs \<Rightarrow>
          Inr (foldl (\<lambda>lowest card. if getValue card < getValue lowest then card else lowest)
                 c cs))"

definition getHighestCard :: "card list \<Rightarrow> error + card" where
  "getHighestCard cards =
     (case cards of
        [] \<Rightarrow> Inl TypeError
      | c # cs \<Rightarrow>
          Inr (foldl (\<lambda>highest card. if getValue card > getValue highest then card else highest)
                 c cs))"

text \<open>
  \<^verbatim>\<open>groupBySuit\<close> builds an object keyed by suit name; \<^verbatim>\<open>for (let suit in bySuit)\<close>
  visits the keys in the order of their insertion, so the object is an association list.
\<close>

definition groupBySuit :: "card list \<Rightarrow> (suit \<times> card list) list" where
  "groupBySuit cards =
     foldl (\<lambda>bySuit card.
              case map_of bySuit (suit card) of
                None \<Rightarrow> bySuit @ [(suit card, [card])]
              | Some cs \<Rightarrow> AList.update (suit card) (cs @ [card]) bySuit)
       [] cards"

definition updatePlayedCards :: "GameState \<Rightarrow> AI \<Rightarrow> AI" where
  "updatePlayedCards g a =
     a\<lparr>aiPlayedCards :=
         concat (map (\<lambda>t. [trickLeadCard t, trickFollowCard t]) (trickHistory g)) @
         (case leadCard g of None \<Rightarrow> [] | Some c \<Rightarrow> [c])\<rparr>"

definition updateOpponentVoids :: "GameState \<Rightarrow> AI \<Rightarrow> AI" where
  "updateOpponentVoids g a =
     a\<lparr>opponentVoidSuits :=
         foldl (\<lambda>voids t.
                  if trickLeadPlayer t = Some Ai
                  then (if suit (trickFollowCard t) \<noteq> suit (trickLeadCard t)
                        then insert (suit (trickLeadCard t)) voids else voids)
                  else voids)
           {} (trickHistory g)\<rparr>"

definition calculateWinProbability :: "AI \<Rightarrow> card \<Rightarrow> int" where
  "calculateWinProbability a c =
     (let score = getValue c;
          higherPlayed = length (filter (\<lambda>p. suit p = suit c \<and> getValue p > getValue c)
                                   (aiPlayedCards a));
          score1 = score + int higherPlayed * 3;
          score2 = (if suit c \<in> opponentVoidSuits a then score1 + 20 else score1);
          score3 = (if getValue c = 14 then score2 + 5 else score2);
          score4 = (if getValue c = 13 then score3 + 3 else score3)
      in score4)"

text \<open>
  The loop shared by \<^verbatim>\<open>chooseBestWinningSuit\<close> and \<^verbatim>\<open>chooseOptimalLeadCard\<close>, which
  differ in the scoring function only: over the suits, with \<open>(bestCard, bestScore)\<close>.
\<close>

fun bestOfSuits ::
  "(card \<Rightarrow> int) \<Rightarrow> (suit \<times> card list) list \<Rightarrow> card option \<times> int \<Rightarrow>
   error + (card option \<times> int)" where
  "bestOfSuits scoreOf [] best = Inr best"
| "bestOfSuits scoreOf ((su, cs) # rest) (bestCard, bestScore) =
     (case getHighestCard cs of
        Inl e \<Rightarrow> Inl e
      | Inr h \<Rightarrow>
          (let score = scoreOf h
           in if score > bestScore then bestOfSuits scoreOf rest (Some h, score)
              else bestOfSuits scoreOf rest (bestCard, bestScore)))"

definition chooseBestWinningSuit :: "AI \<Rightarrow> card list \<Rightarrow> error + card" where
  "chooseBestWinningSuit a validCards =
     (case bestOfSuits (calculateWinProbability a) (groupBySuit validCards) (None, - 1) of
        Inl e \<Rightarrow> Inl e
      | Inr (bestCard, bestScore) \<Rightarrow>
          (case bestCard of
             Some c \<Rightarrow> Inr c
           | None \<Rightarrow> getHighestCard validCards))"

definition grandmasterTrick5 :: "GameState \<Rightarrow> AI \<Rightarrow> card list \<Rightarrow> bool \<Rightarrow> error + card" where
  "grandmasterTrick5 g a validCards isLeading =
     (if isLeading
      then (let voidSuitCards = filter (\<lambda>c. suit c \<in> opponentVoidSuits a) validCards
            in if length voidSuitCards > 0 then getLowestCard voidSuitCards
               else chooseBestWinningSuit a validCards)
      else (case leadCard g of
              None \<Rightarrow> Inl TypeError
            | Some l \<Rightarrow>
                (let leadSuit = suit l;
                     leadValue = getValue l;
                     sameSuit = filter (\<lambda>c. suit c = leadSuit) validCards
                 in if length sameSuit > 0
                    then (let winningCards = filter (\<lambda>c. getValue c > leadValue) sameSuit
                          in if length winningCards > 0 then getLowestCard winningCards
                             else getLowestCard sameSuit)
                    else getLowestCard validCards)))"

text \<open>
  The first loop of \<^verbatim>\<open>grandmasterLead\<close>: the first suit of \<open>bySuit\<close> whose group in the
  hand has exactly one card yields that card.
\<close>

fun findSingleton :: "(suit \<times> card list) list \<Rightarrow> (suit \<times> card list) list \<Rightarrow> card option" where
  "findSingleton [] handBySuit = None"
| "findSingleton ((su, cs) # rest) handBySuit =
     (case map_of handBySuit su of
        Some [c] \<Rightarrow> Some c
      | _ \<Rightarrow> findSingleton rest handBySuit)"

text \<open>
  An entry of \<^verbatim>\<open>multiCardSuits\<close>, with the fields \<^verbatim>\<open>suit\<close>, \<^verbatim>\<open>cards\<close>, \<^verbatim>\<open>highest\<close>
  and \<^verbatim>\<open>lowest\<close>.
\<close>

record MultiCardSuit =
  mcSuit :: suit
  mcCards :: "card list"
  mcHighest :: card
  mcLowest :: card

text \<open>The second loop: one entry for every suit of the hand with two cards or more.\<close>

fun multiCardSuitsOf :: "(suit \<times> card list) list \<Rightarrow> error + MultiCardSuit list" where
  "multiCardSuitsOf [] = Inr []"
| "multiCardSuitsOf ((su, cs) # rest) =
     (if length cs \<ge> 2
      then (case getHighestCard cs of
              Inl e \<Rightarrow> Inl e
            | Inr h \<Rightarrow>
               (case getLowestCard cs of
                  Inl e \<Rightarrow> Inl e
                | Inr l \<Rightarrow>
                   (case multiCardSuitsOf rest of
                      Inl e \<Rightarrow> Inl e
                    | Inr ms \<Rightarrow>
                        Inr (\<lparr>mcSuit = su, mcCards = cs, mcHighest = h, mcLowest = l\<rparr> # ms))))
      else multiCardSuitsOf rest)"

text \<open>
  \<^verbatim>\<open>grandmasterLead\<close>. \<^verbatim>\<open>Array.prototype.sort\<close> is stable, as \<open>sort_key\<close> is. The
  fallback computes \<^verbatim>\<open>Math.floor((trickNumber / 5) * (sorted.length - 1))\<close> in exact
  arithmetic; the double of the source has the same floor whenever the exact product
  is 0 or no integer, which covers tricks 1 to 4 with at most five cards. An index
  outside the array yields \<^verbatim>\<open>undefined\<close> (\<open>None\<close>).
\<close>

definition grandmasterLead :: "card list \<Rightarrow> card list \<Rightarrow> int \<Rightarrow> error + card option" where
  "grandmasterLead validCards hand trickNo =
     (let bySuit = groupBySuit validCards;
          handBySuit = groupBySuit hand
      in case findSingleton bySuit handBySuit of
           Some c \<Rightarrow> Inr (Some c)
         | None \<Rightarrow>
            (case multiCardSuitsOf handBySuit of
               Inl e \<Rightarrow> Inl e
             | Inr multiCardSuits \<Rightarrow>
                 if length multiCardSuits > 0
                 then (if trickNo \<le> 2
                       then Inr (Some (mcHighest (hd
                              (sort_key (\<lambda>m. getValue (mcHighest m)) multiCardSuits))))
                       else Inr (Some (mcHighest (hd
                              (sort_key (\<lambda>m. - getValue (mcHighest m)) multiCardSuits)))))
                 else (let sortedCards = sort_key getValue validCards;
                           aggressionIndex =
                             (trickNo * (int (length sortedCards) - 1)) div 5;
                           k = min aggressionIndex (int (length sortedCards) - 1)
                       in if 0 \<le> k \<and> k < int (length sortedCards)
                          then Inr (Some (sortedCards ! nat k)) else Inr None)))"

definition grandmasterFollow :: "GameState \<Rightarrow> card list \<Rightarrow> int \<Rightarrow> error + card" where
  "grandmasterFollow g validCards trickNo =
     (case leadCard g of
        None \<Rightarrow> Inl TypeError
      | Some l \<Rightarrow>
          (let leadSuit = suit l;
               leadValue = getValue l;
               sameSuit = filter (\<lambda>c. suit c = leadSuit) validCards
           in if length sameSuit > 0
              then (let winningCards = filter (\<lambda>c. getValue c > leadValue) sameSuit
                    in if length winningCards > 0 then getLowestCard winningCards
                       else getHighestCard sameSuit)
              else getLowestCard validCards))"

text \<open>
  \<^verbatim>\<open>chooseCardGrandmaster\<close> returns the chosen card (\<open>None\<close> is \<^verbatim>\<open>undefined\<close>) and the
  strategy's updated fields.
\<close>

definition chooseCardGrandmaster :: "GameState \<Rightarrow> AI \<Rightarrow> error + (card option \<times> AI)" where
  "chooseCardGrandmaster g a =
     (let validCards = getValidCards g Ai;
          trickNo = currentTrick g;
          isLeading = (leadCard g = None);
          hand = aiHand g;
          a1 = updatePlayedCards g a;
          a2 = updateOpponentVoids g a1
      in if trickNo = 5
         then (case grandmasterTrick5 g a2 validCards isLeading of
                 Inl e \<Rightarrow> Inl e | Inr c \<Rightarrow> Inr (Some c, a2))
         else if isLeading
         then (case grandmasterLead validCards hand trickNo of
                 Inl e \<Rightarrow> Inl e | Inr c \<Rightarrow> Inr (c, a2))
         else (case grandmasterFollow g validCards trickNo of
                 Inl e \<Rightarrow> Inl e | Inr c \<Rightarrow> Inr (Some c, a2)))"

subsection \<open>The other strategies and the dispatch\<close>

text \<open>
  \<^verbatim>\<open>chooseCardEasy\<close>. \<open>randomIndex\<close> is the drawn
  \<^verbatim>\<open>Math.floor(Math.random() * validCards.length)\<close>; an index outside the array yields
  \<^verbatim>\<open>undefined\<close>.
\<close>

definition chooseCardEasy :: "GameState \<Rightarrow> nat \<Rightarrow> card option" where
  "chooseCardEasy g randomIndex =
     (let validCards = getValidCards g Ai
      in if randomIndex < length validCards then Some (validCards ! randomIndex) else None)"

definition chooseBestCardToWin :: "GameState \<Rightarrow> card list \<Rightarrow> bool \<Rightarrow> error + card" where
  "chooseBestCardToWin g validCards isLeading =
     (if isLeading then getHighestCard validCards
      else (case leadCard g of
              None \<Rightarrow> Inl TypeError
            | Some l \<Rightarrow>
                (let leadSuit = suit l;
                     leadValue = getValue l;
                     sameSuit = filter (\<lambda>c. suit c = leadSuit) validCards
                 in if length sameSuit > 0
                    then (let winningCards = filter (\<lambda>c. getValue c > leadValue) sameSuit
                          in if length winningCards > 0 then getLowestCard winningCards
                             else getLowestCard sameSuit)
                    else getLowestCard validCards)))"

definition chooseCardMedium :: "GameState \<Rightarrow> AI \<Rightarrow> error + (card option \<times> AI)" where
  "chooseCardMedium g a =
     (let validCards = getValidCards g Ai;
          trickNo = currentTrick g;
          isLeading = (leadCard g = None);
          a1 = updatePlayedCards g a;
          chosen =
            (if trickNo = 5 then chooseBestCardToWin g validCards isLeading
             else if isLeading then getLowestCard validCards
             else (case leadCard g of
                     None \<Rightarrow> Inl TypeError
                   | Some l \<Rightarrow>
                       (let leadSuit = suit l;
                            sameSuit = filter (\<lambda>c. suit c = leadSuit) validCards
                        in if length sameSuit > 0
                           then (let leadValue = getValue l;
                                     losingCards = filter (\<lambda>c. getValue c < leadValue) sameSuit
                                 in if length losingCards > 0 then getLowestCard losingCards
                                    else getLowestCard sameSuit)
                           else getLowestCard validCards)))
      in case chosen of Inl e \<Rightarrow> Inl e | Inr c \<Rightarrow> Inr (Some c, a1))"

definition estimateWinProbability :: "AI \<Rightarrow> card \<Rightarrow> int" where
  "estimateWinProbability a c =
     (let higherCardsPlayed =
            length (filter (\<lambda>p. suit p = suit c \<and> getValue p > getValue c) (aiPlayedCards a))
      in getValue c + int higherCardsPlayed * 2)"

definition chooseOptimalLeadCard :: "AI \<Rightarrow> card list \<Rightarrow> error + card" where
  "chooseOptimalLeadCard a validCards =
     (case bestOfSuits (estimateWinProbability a) (groupBySuit validCards) (None, - 1) of
        Inl e \<Rightarrow> Inl e
      | Inr (bestCard, bestScore) \<Rightarrow>
          (case bestCard of
             Some c \<Rightarrow> Inr c
           | None \<Rightarrow> getHighestCard validCards))"

text \<open>
  The loop of \<^verbatim>\<open>chooseStrategicLeadCard\<close>, with \<open>(weakestSuit, smallestCount)\<close>; the
  count \<open>None\<close> is \<^verbatim>\<open>Infinity\<close>.
\<close>

fun weakestOfSuits ::
  "(suit \<times> card list) list \<Rightarrow> suit option \<times> nat option \<Rightarrow> suit option \<times> nat option" where
  "weakestOfSuits [] weakest = weakest"
| "weakestOfSuits ((su, cs) # rest) (weakestSuit, smallestCount) =
     (if (case smallestCount of None \<Rightarrow> True | Some n \<Rightarrow> length cs < n)
      then weakestOfSuits rest (Some su, Some (length cs))
      else weakestOfSuits rest (weakestSuit, smallestCount))"

definition chooseStrategicLeadCard :: "card list \<Rightarrow> error + card" where
  "chooseStrategicLeadCard validCards =
     (let bySuit = groupBySuit validCards
      in case weakestOfSuits bySuit (None, None) of
           (Some su, smallestCount) \<Rightarrow>
             (case map_of bySuit su of
                None \<Rightarrow> Inl TypeError
              | Some cs \<Rightarrow> getLowestCard cs)
         | (None, smallestCount) \<Rightarrow> getLowestCard validCards)"

definition chooseStrategicFollowCard :: "GameState \<Rightarrow> card list \<Rightarrow> error + card" where
  "chooseStrategicFollowCard g validCards =
     (case leadCard g of
        None \<Rightarrow> Inl TypeError
      | Some l \<Rightarrow>
          (let leadSuit = suit l;
               leadValue = getValue l;
               sameSuit = filter (\<lambda>c. suit c = leadSuit) validCards
           in if length sameSuit > 0
              then (let losingCards = filter (\<lambda>c. getValue c < leadValue) sameSuit
                    in if length losingCards > 0 then getHighestCard losingCards
                       else getLowestCard sameSuit)
              else getLowestCard validCards))"

definition chooseCardHard :: "GameState \<Rightarrow> AI \<Rightarrow> error + (card option \<times> AI)" where
  "chooseCardHard g a =
     (let validCards = getValidCards g Ai;
          trickNo = currentTrick g;
          isLeading = (leadCard g = None);
          a1 = updatePlayedCards g a;
          chosen =
            (if trickNo = 5
             then (if isLeading then chooseOptimalLeadCard a1 validCards
                   else chooseBestCardToWin g validCards False)
             else if isLeading then chooseStrategicLeadCard validCards
             else chooseStrategicFollowCard g validCards)
      in case chosen of Inl e \<Rightarrow> Inl e | Inr c \<Rightarrow> Inr (Some c, a1))"

text \<open>
  \<^verbatim>\<open>chooseCard\<close>: the \<^verbatim>\<open>switch\<close> on \<^verbatim>\<open>this.game.aiDifficulty\<close>, with the medium
  strategy as default. \<open>randomIndex\<close> is the draw of the easy strategy.
\<close>

definition chooseCard :: "GameState \<Rightarrow> AI \<Rightarrow> nat \<Rightarrow> error + (card option \<times> AI)" where
  "chooseCard g a randomIndex =
     (let difficulty = aiDifficulty g
      in if difficulty = ''easy'' then Inr (chooseCardEasy g randomIndex, a)
         else if difficulty = ''medium'' then chooseCardMedium g a
         else if difficulty = ''hard'' then chooseCardHard g a
         else if difficulty = ''grandmaster'' then chooseCardGrandmaster g a
         else chooseCardMedium g a)"

text \<open>\<^verbatim>\<open>new AI(game)\<close>: no card seen, no void known.\<close>

definition newAI :: AI where
  "newAI = \<lparr>aiPlayedCards = [], opponentVoidSuits = {}\<rparr>"

section \<open>Driving a round\<close>

text \<open>
  The number of cards on the table that belong to no resolved trick: one while a lead
  card waits for its follow card, none otherwise.
\<close>

definition inFlightCards :: "GameState \<Rightarrow> nat" where
  "inFlightCards s =
     (case leadCard s of
        None \<Rightarrow> 0
      | Some l \<Rightarrow> (case followCard s of None \<Rightarrow> 1 | Some f \<Rightarrow> 0))"

definition cardTotal :: "GameState \<Rightarrow> nat" where
  "cardTotal s =
     length (playerHand s) + length (aiHand s) + 2 * length (trickHistory s) + inFlightCards s"

text \<open>
  A sequence of \<^verbatim>\<open>playCard\<close> calls, each of which must return \<^verbatim>\<open>true\<close>; \<open>None\<close> when
  one returns \<^verbatim>\<open>false\<close> or throws.
\<close>

fun playAll :: "GameState \<Rightarrow> (card \<times> player) list \<Rightarrow> GameState option" where
  "playAll s [] = Some s"
| "playAll s ((c, p) # rest) =
     (case playCard s c p of
        Inr (True, s') \<Rightarrow> playAll s' rest
      | _ \<Rightarrow> None)"

text \<open>
  The order of calls that ui.js aims at during a round: a card is played from the hand
  of the side that plays it, after the previous trick has been cleared from the table;
  \<^verbatim>\<open>clearTrick\<close> is called on a completed trick, never on a lead card that waits for
  its follow card. \<open>step\<close> is \<open>None\<close> for a call outside this order.
\<close>

datatype action = Play card player | Clear

fun step :: "GameState \<Rightarrow> action \<Rightarrow> GameState option" where
  "step s (Play c p) =
     (if c \<in> set (handOf s p) \<and> followCard s = None
      then (case playCard s c p of Inl e \<Rightarrow> None | Inr (b, s') \<Rightarrow> Some s')
      else None)"
| "step s Clear = (if inFlightCards s = 0 then Some (clearTrick s) else None)"

fun run :: "GameState \<Rightarrow> action list \<Rightarrow> GameState option" where
  "run s [] = Some s"
| "run s (a # as) = (case step s a of None \<Rightarrow> None | Some s' \<Rightarrow> run s' as)"

text \<open>
  The invariant of a round: the ten dealt cards are in the hands, in resolved tricks or
  in flight, and the trick counter runs one ahead of the history until the round ends
  with five tricks.
\<close>

definition round_inv :: "GameState \<Rightarrow> bool" where
  "round_inv s =
     (cardTotal s = 10 \<and>
      (if gameActive s
       then currentTrick s = int (length (trickHistory s)) + 1 \<and> length (trickHistory s) < 5
       else length (trickHistory s) = 5))"

text \<open>Fixed inputs: a random source that never swaps, and the round it deals.\<close>

definition no_swap :: "nat \<Rightarrow> nat" where
  "no_swap i = i"

definition round1 :: GameState where
  "round1 = startNewRound no_swap constructed"

text \<open>A whole round played on \<open>round1\<close>: the side that leads plays its next card.\<close>

definition full_round :: "action list" where
  "full_round =
     [Play (Card Clubs R2) Player, Play (Card Clubs R7) Ai, Clear,
      Play (Card Clubs R8) Ai, Play (Card Clubs R3) Player, Clear,
      Play (Card Clubs R9) Ai, Play (Card Clubs R4) Player, Clear,
      Play (Card Clubs R10) Ai, Play (Card Clubs R5) Player, Clear,
      Play (Card Clubs Jack) Ai, Play (Card Clubs R6) Player]"

text \<open>A settings store whose score goal is not a number.\<close>

definition malformed_store :: storage where
  "malformed_store = [''scoreGoal'' \<mapsto> ''abc'']"

section \<open>Properties\<close>

subsection \<open>The shuffle and the deal\<close>

lemma length_shuffle_from: "length (shuffle_from rnd k cards) = length cards"
  by (induction k arbitrary: cards) (simp_all add: Let_def)

lemma length_shuffle: "length (shuffle rnd cards) = length cards"
  by (simp add: shuffle_def length_shuffle_from)

lemma length_initialize: "length initialize = 52"
  by (simp add: initialize_def suits_def ranks_def)

lemma mset_shuffle_from:
  "draws_in_range rnd \<Longrightarrow> k < length cards \<Longrightarrow> mset (shuffle_from rnd k cards) = mset cards"
proof (induction k arbitrary: cards)
  case 0
  then show ?case by simp
next
  case (Suc k)
  have j: "rnd (Suc k) < length cards"
    using Suc.prems by (auto simp: draws_in_range_def intro: le_less_trans)
  have "mset (cards[Suc k := cards ! rnd (Suc k), rnd (Suc k) := cards ! Suc k]) = mset cards"
    using mset_swap [of "rnd (Suc k)" cards "Suc k"] j Suc.prems(2) by simp
  then show ?case
    using Suc.IH [of "cards[Suc k := cards ! rnd (Suc k), rnd (Suc k) := cards ! Suc k]"] Suc.prems
    by (simp add: Let_def)
qed

lemma mset_shuffle: "draws_in_range rnd \<Longrightarrow> mset (shuffle rnd cards) = mset cards"
  by (cases cards) (simp_all add: shuffle_def mset_shuffle_from)

lemma shuffle_from_no_swap: "shuffle_from no_swap k cards = cards"
  by (induction k arbitrary: cards) (simp_all add: no_swap_def)

lemma shuffle_no_swap: "shuffle no_swap cards = cards"
  by (simp add: shuffle_def shuffle_from_no_swap)

lemma draws_in_range_no_swap: "draws_in_range no_swap"
  by (simp add: draws_in_range_def no_swap_def)

lemma round1_hands:
  "playerHand round1 = [Card Clubs R2, Card Clubs R3, Card Clubs R4, Card Clubs R5, Card Clubs R6]"
  "aiHand round1 = [Card Clubs R7, Card Clubs R8, Card Clubs R9, Card Clubs R10, Card Clubs Jack]"
  by (simp_all add: round1_def startNewRound_def shuffle_no_swap deal_def initialize_def
        suits_def ranks_def)

lemma round1_eq:
  "round1 = constructed\<lparr>deck := drop 10 initialize,
     playerHand := [Card Clubs R2, Card Clubs R3, Card Clubs R4, Card Clubs R5, Card Clubs R6],
     aiHand := [Card Clubs R7, Card Clubs R8, Card Clubs R9, Card Clubs R10, Card Clubs Jack],
     currentTrick := 1, leadCard := None, followCard := None,
     playedCards := [], trickHistory := [],
     leadPlayer := Some Player, currentPlayer := Some Player,
     gameActive := True, roundActive := True\<rparr>"
proof -
  have a: "take 5 initialize = [Card Clubs R2, Card Clubs R3, Card Clubs R4, Card Clubs R5, Card Clubs R6]"
    by (simp add: initialize_def suits_def ranks_def)
  have b: "take 5 (drop 5 initialize) = [Card Clubs R7, Card Clubs R8, Card Clubs R9, Card Clubs R10, Card Clubs Jack]"
    by (simp add: initialize_def suits_def ranks_def)
  show ?thesis
    unfolding round1_def startNewRound_def shuffle_no_swap deal_def Let_def prod.case a b drop_drop
    by simp
qed

lemmas game_simps = playCard_def canPlayCard_def handOf_def setHand_def splice1_def
  evaluateTrick_def otherPlayer_def getValue_def clearTrick_def inFlightCards_def cardTotal_def
  Let_def constructed_def

subsection \<open>Trick resolution\<close>

text \<open>
  C1. When a trick with lead card \<open>a\<close> and follow card \<open>b\<close> is evaluated, the recorded
  winner is the lead player if \<open>b\<close> is of another suit; with both cards of one suit it is
  the side whose card has the greater value. The values are ace 14, king 13, queen 12,
  jack 11, then 10 down to 2.
\<close>

theorem C1_trick_winner:
  assumes "leadCard s = Some a" and "followCard s = Some b" and "leadPlayer s = Some lp"
  shows "\<exists>r s' t. evaluateTrick s = Inr (r, s') \<and> trickHistory s' = trickHistory s @ [t] \<and>
           trickLeadCard t = a \<and> trickFollowCard t = b \<and>
           (suit b \<noteq> suit a \<longrightarrow> winner t = Some lp) \<and>
           (suit b = suit a \<and> getValue a > getValue b \<longrightarrow> winner t = Some lp) \<and>
           (suit b = suit a \<and> getValue b > getValue a \<longrightarrow>
              winner t = Some (if lp = Player then Ai else Player)) \<and>
           map (\<lambda>r. getValue (Card su r))
             [Ace, King, Queen, Jack, R10, R9, R8, R7, R6, R5, R4, R3, R2] =
           [14, 13, 12, 11, 10, 9, 8, 7, 6, 5, 4, 3, 2]"
  using assms
  by (auto simp: evaluateTrick_def Let_def otherPlayer_def getValue_def)

theorem C1_trick_winner_witness:
  "winner (last (trickHistory (snd (projr (evaluateTrick
      (constructed\<lparr>leadCard := Some (Card Clubs R5), followCard := Some (Card Clubs R9),
                   leadPlayer := Some Player, currentTrick := 1\<rparr>)))))) = Some Ai \<and>
   winner (last (trickHistory (snd (projr (evaluateTrick
      (constructed\<lparr>leadCard := Some (Card Clubs Ace), followCard := Some (Card Clubs King),
                   leadPlayer := Some Ai, currentTrick := 1\<rparr>)))))) = Some Ai \<and>
   winner (last (trickHistory (snd (projr (evaluateTrick
      (constructed\<lparr>leadCard := Some (Card Clubs R5), followCard := Some (Card Diamonds R9),
                   leadPlayer := Some Player, currentTrick := 1\<rparr>)))))) = Some Player"
  using C1_trick_winner [of "constructed\<lparr>leadCard := Some (Card Clubs R5),
      followCard := Some (Card Clubs R9), leadPlayer := Some Player, currentTrick := 1\<rparr>"
      "Card Clubs R5" "Card Clubs R9" Player Clubs]
    C1_trick_winner [of "constructed\<lparr>leadCard := Some (Card Clubs Ace),
      followCard := Some (Card Clubs King), leadPlayer := Some Ai, currentTrick := 1\<rparr>"
      "Card Clubs Ace" "Card Clubs King" Ai Clubs]
    C1_trick_winner [of "constructed\<lparr>leadCard := Some (Card Clubs R5),
      followCard := Some (Card Diamonds R9), leadPlayer := Some Player, currentTrick := 1\<rparr>"
      "Card Clubs R5" "Card Diamonds R9" Player Clubs]
  by (auto simp: getValue_def)

text \<open>
  C2. When trick 5 is evaluated, the score of its winner grows by one and the other score
  stays; when any other trick is evaluated, both scores stay, the winner becomes lead
  player and current player, and the trick number grows by one.
\<close>

theorem C2_only_trick5_scores:
  assumes "leadCard s = Some a" and "followCard s = Some b" and "leadPlayer s = Some lp"
  shows "\<exists>r s' w. evaluateTrick s = Inr (r, s') \<and> winner (last (trickHistory s')) = Some w \<and>
           (currentTrick s = 5 \<longrightarrow>
              playerScore s' = playerScore s + (if w = Player then 1 else 0) \<and>
              aiScore s' = aiScore s + (if w = Ai then 1 else 0)) \<and>
           (currentTrick s \<noteq> 5 \<longrightarrow>
              playerScore s' = playerScore s \<and> aiScore s' = aiScore s \<and>
              leadPlayer s' = Some w \<and> currentPlayer s' = Some w \<and>
              currentTrick s' = currentTrick s + 1)"
  using assms
  by (cases lp) (auto simp: evaluateTrick_def Let_def otherPlayer_def)

theorem C2_only_trick5_scores_witness:
  "playerScore (snd (projr (evaluateTrick
      (constructed\<lparr>leadCard := Some (Card Clubs R9), followCard := Some (Card Clubs R5),
                   leadPlayer := Some Player, currentTrick := 5\<rparr>)))) = 1 \<and>
   aiScore (snd (projr (evaluateTrick
      (constructed\<lparr>leadCard := Some (Card Clubs R9), followCard := Some (Card Clubs R5),
                   leadPlayer := Some Player, currentTrick := 5\<rparr>)))) = 0 \<and>
   playerScore (snd (projr (evaluateTrick
      (constructed\<lparr>leadCard := Some (Card Clubs R9), followCard := Some (Card Clubs R5),
                   leadPlayer := Some Ai, currentTrick := 2\<rparr>)))) = 0 \<and>
   aiScore (snd (projr (evaluateTrick
      (constructed\<lparr>leadCard := Some (Card Clubs R9), followCard := Some (Card Clubs R5),
                   leadPlayer := Some Ai, currentTrick := 2\<rparr>)))) = 0 \<and>
   currentPlayer (snd (projr (evaluateTrick
      (constructed\<lparr>leadCard := Some (Card Clubs R9), followCard := Some (Card Clubs R5),
                   leadPlayer := Some Ai, currentTrick := 2\<rparr>)))) = Some Ai \<and>
   currentTrick (snd (projr (evaluateTrick
      (constructed\<lparr>leadCard := Some (Card Clubs R9), followCard := Some (Card Clubs R5),
                   leadPlayer := Some Ai, currentTrick := 2\<rparr>)))) = 3"
proof -
  have w5: "winner (last (trickHistory (snd (projr (evaluateTrick
      (constructed\<lparr>leadCard := Some (Card Clubs R9), followCard := Some (Card Clubs R5),
                   leadPlayer := Some Player, currentTrick := 5\<rparr>)))))) = Some Player"
    by (simp add: evaluateTrick_def getValue_def Let_def constructed_def)
  have w2: "winner (last (trickHistory (snd (projr (evaluateTrick
      (constructed\<lparr>leadCard := Some (Card Clubs R9), followCard := Some (Card Clubs R5),
                   leadPlayer := Some Ai, currentTrick := 2\<rparr>)))))) = Some Ai"
    by (simp add: evaluateTrick_def getValue_def Let_def constructed_def)
  show ?thesis
    using C2_only_trick5_scores [of "constructed\<lparr>leadCard := Some (Card Clubs R9),
        followCard := Some (Card Clubs R5), leadPlayer := Some Player, currentTrick := 5\<rparr>"
        "Card Clubs R9" "Card Clubs R5" Player]
      C2_only_trick5_scores [of "constructed\<lparr>leadCard := Some (Card Clubs R9),
        followCard := Some (Card Clubs R5), leadPlayer := Some Ai, currentTrick := 2\<rparr>"
        "Card Clubs R9" "Card Clubs R5" Ai] w5 w2
    by (auto simp: constructed_def)
qed

subsection \<open>Legal cards\<close>

text \<open>
  C3. \<^verbatim>\<open>getValidCards\<close> returns the whole hand when no lead card is set; with a lead
  card it returns the cards of the lead suit when the hand has one, and the whole hand
  otherwise.
\<close>

theorem C3_valid_cards:
  "(leadCard s = None \<longrightarrow> getValidCards s p = handOf s p) \<and>
   (\<forall>l. leadCard s = Some l \<longrightarrow>
      (if \<exists>c \<in> set (handOf s p). suit c = suit l
       then getValidCards s p = filter (\<lambda>c. suit c = suit l) (handOf s p)
       else getValidCards s p = handOf s p))"
  by (auto simp: getValidCards_def Let_def filter_empty_conv)

theorem C3_valid_cards_witness:
  "getValidCards (constructed\<lparr>aiHand := [Card Clubs R9, Card Diamonds R7, Card Clubs R3],
                              leadCard := Some (Card Clubs R5)\<rparr>) Ai
     = [Card Clubs R9, Card Clubs R3] \<and>
   getValidCards (constructed\<lparr>aiHand := [Card Hearts R9, Card Diamonds R7],
                              leadCard := Some (Card Clubs R5)\<rparr>) Ai
     = [Card Hearts R9, Card Diamonds R7] \<and>
   getValidCards (constructed\<lparr>aiHand := [Card Hearts R9, Card Diamonds R7]\<rparr>) Ai
     = [Card Hearts R9, Card Diamonds R7]"
  using C3_valid_cards [of "constructed\<lparr>aiHand := [Card Clubs R9, Card Diamonds R7, Card Clubs R3],
                              leadCard := Some (Card Clubs R5)\<rparr>" Ai]
    C3_valid_cards [of "constructed\<lparr>aiHand := [Card Hearts R9, Card Diamonds R7],
                              leadCard := Some (Card Clubs R5)\<rparr>" Ai]
    C3_valid_cards [of "constructed\<lparr>aiHand := [Card Hearts R9, Card Diamonds R7]\<rparr>" Ai]
  by (simp add: handOf_def constructed_def)

text \<open>
  C4 (as amended). \<^verbatim>\<open>canPlayCard\<close> returns false whenever it is not the turn of the
  side that asks. For the side whose turn it is, it accepts every card when no lead card
  is set, in the hand or not. In every state its answer depends on the card through the
  suit of the card only, so it never looks for the card in the hand.
\<close>

theorem C4_turn_and_suit_only:
  "(currentPlayer s \<noteq> Some p \<longrightarrow> canPlayCard s c p = False) \<and>
   (currentPlayer s = Some p \<and> leadCard s = None \<longrightarrow> canPlayCard s c p = True) \<and>
   (suit c = suit c' \<longrightarrow> canPlayCard s c p = canPlayCard s c' p)"
  by (simp add: canPlayCard_def Let_def split: option.split)

theorem C4_turn_and_suit_only_witness:
  "currentPlayer round1 \<noteq> Some Ai \<and> canPlayCard round1 (Card Clubs R7) Ai = False \<and>
   currentPlayer round1 = Some Player \<and> leadCard round1 = None \<and>
   canPlayCard round1 (Card Hearts King) Player = True \<and>
   canPlayCard (round1\<lparr>leadCard := Some (Card Clubs R7), currentPlayer := Some Player\<rparr>)
     (Card Clubs Queen) Player =
   canPlayCard (round1\<lparr>leadCard := Some (Card Clubs R7), currentPlayer := Some Player\<rparr>)
     (Card Clubs R2) Player"
  using C4_turn_and_suit_only [of round1 Ai "Card Clubs R7" "Card Clubs R7"]
    C4_turn_and_suit_only [of round1 Player "Card Hearts King" "Card Hearts King"]
    C4_turn_and_suit_only [of
      "round1\<lparr>leadCard := Some (Card Clubs R7), currentPlayer := Some Player\<rparr>" Player
      "Card Clubs Queen" "Card Clubs R2"]
  by (simp add: round1_eq)

text \<open>
  C4 as stated fails: in the round dealt without swaps the player leads, the ace of
  spades is not in the player's hand, and \<^verbatim>\<open>canPlayCard\<close> accepts it.
\<close>

theorem C4_card_not_in_hand_accepted:
  "Card Spades Ace \<notin> set (playerHand round1) \<and> canPlayCard round1 (Card Spades Ace) Player"
  by (simp add: round1_eq canPlayCard_def constructed_def)

text \<open>
  C6. When \<^verbatim>\<open>canPlayCard\<close> is false, \<^verbatim>\<open>playCard\<close> returns false, throws nothing and
  leaves the state as it was.
\<close>

theorem C6_illegal_play_rejected:
  "\<not> canPlayCard s c p \<Longrightarrow> playCard s c p = Inr (False, s)"
  by (simp add: playCard_def)

theorem C6_illegal_play_rejected_witness:
  "\<not> canPlayCard round1 (Card Clubs R7) Ai \<and>
   playCard round1 (Card Clubs R7) Ai = Inr (False, round1)"
proof -
  have "\<not> canPlayCard round1 (Card Clubs R7) Ai"
    by (simp add: round1_eq canPlayCard_def)
  then show ?thesis
    using C6_illegal_play_rejected [of round1 "Card Clubs R7" Ai] by simp
qed

subsection \<open>Starting a round\<close>

text \<open>
  C7 (as amended). \<^verbatim>\<open>startNewRound\<close> deals from a shuffled fresh deck of 52 cards: the
  two hands of five cards and the rest of the deck are, in this order, the shuffled
  deck, which is a permutation of the fresh one. It resets the trick number to 1,
  empties the two card slots, the played cards and the history, keeps the scores, and
  makes the human player both lead player and current player.
\<close>

theorem C7_start_round:
  assumes "draws_in_range rnd" and "s' = startNewRound rnd s"
  shows "playerHand s' @ aiHand s' @ deck s' = shuffle rnd initialize \<and>
         mset (shuffle rnd initialize) = mset initialize \<and>
         length (playerHand s') = 5 \<and> length (aiHand s') = 5 \<and> length (deck s') = 42 \<and>
         currentTrick s' = 1 \<and> leadCard s' = None \<and> followCard s' = None \<and>
         playedCards s' = [] \<and> trickHistory s' = [] \<and>
         leadPlayer s' = Some Player \<and> currentPlayer s' = Some Player \<and>
         gameActive s' \<and> roundActive s' \<and>
         playerScore s' = playerScore s \<and> aiScore s' = aiScore s"
proof -
  have "take 5 (shuffle rnd initialize) @ take 5 (drop 5 (shuffle rnd initialize)) @
          drop 5 (drop 5 (shuffle rnd initialize)) = shuffle rnd initialize"
    by (simp only: append_take_drop_id)
  moreover have "length (shuffle rnd initialize) = 52"
    by (simp add: length_shuffle length_initialize)
  ultimately show ?thesis
    using assms by (simp add: startNewRound_def deal_def mset_shuffle Let_def)
qed

theorem C7_start_round_witness:
  "mset (playerHand round1 @ aiHand round1 @ deck round1) = mset initialize \<and>
   length (playerHand round1) = 5 \<and> length (aiHand round1) = 5 \<and>
   leadPlayer round1 = Some Player \<and> currentTrick round1 = 1"
  using C7_start_round [of no_swap round1 constructed] draws_in_range_no_swap
  by (simp add: round1_def)

text \<open>
  C7 as stated fails: a round started after a round that the player led is led by the
  player again, not by the other side.
\<close>

theorem C7_leader_not_alternated:
  "leadPlayer round1 = Some Player \<and> leadPlayer (startNewRound no_swap round1) \<noteq> Some Ai"
  by (simp add: round1_def startNewRound_def Let_def split: prod.splits)

subsection \<open>The cards of a round\<close>

lemma round_inv_start: "round_inv (startNewRound rnd s)"
  by (simp add: round_inv_def cardTotal_def inFlightCards_def startNewRound_def deal_def
        Let_def length_shuffle length_initialize)

lemma findIndex_Some:
  "P x \<Longrightarrow> x \<in> set xs \<Longrightarrow> \<exists>i. findIndex P xs = Some i \<and> i < length xs"
  by (induction xs) auto

lemma length_splice1: "i < length xs \<Longrightarrow> Suc (length (splice1 i xs)) = length xs"
  by (simp add: splice1_def)

lemma round_inv_clear:
  "round_inv s \<Longrightarrow> inFlightCards s = 0 \<Longrightarrow> round_inv (clearTrick s)"
  by (simp add: round_inv_def cardTotal_def inFlightCards_def clearTrick_def)

lemma remove_played_card:
  assumes "c \<in> set (handOf s p)"
  shows "\<exists>i. findIndex (\<lambda>h. suit h = suit c \<and> rank h = rank c) (handOf s p) = Some i \<and>
           Suc (length (playerHand (setHand p (splice1 i (handOf s p)) s)) +
                length (aiHand (setHand p (splice1 i (handOf s p)) s))) =
           length (playerHand s) + length (aiHand s)"
proof -
  obtain i where i: "findIndex (\<lambda>h. suit h = suit c \<and> rank h = rank c) (handOf s p) = Some i"
    and il: "i < length (handOf s p)"
    using findIndex_Some [of "\<lambda>h. suit h = suit c \<and> rank h = rank c" c "handOf s p"] assms
    by auto
  have "Suc (length (splice1 i (handOf s p))) = length (handOf s p)"
    using il by (rule length_splice1)
  then have "Suc (length (playerHand (setHand p (splice1 i (handOf s p)) s)) +
                length (aiHand (setHand p (splice1 i (handOf s p)) s))) =
           length (playerHand s) + length (aiHand s)"
    by (cases p) (simp_all add: setHand_def handOf_def)
  with i show ?thesis by blast
qed

lemma setHand_fields:
  "leadCard (setHand p h s) = leadCard s"
  "followCard (setHand p h s) = followCard s"
  "trickHistory (setHand p h s) = trickHistory s"
  "gameActive (setHand p h s) = gameActive s"
  "currentTrick (setHand p h s) = currentTrick s"
  by (simp_all add: setHand_def)

lemma evaluateTrick_effect:
  assumes "leadCard s = Some l" and "followCard s = Some f"
  shows "\<exists>r s'. evaluateTrick s = Inr (r, s') \<and>
           playerHand s' = playerHand s \<and> aiHand s' = aiHand s \<and>
           length (trickHistory s') = Suc (length (trickHistory s)) \<and>
           leadCard s' = Some l \<and> followCard s' = Some f \<and>
           gameActive s' = (gameActive s \<and> currentTrick s \<noteq> 5) \<and>
           currentTrick s' = (if currentTrick s = 5 then 5 else currentTrick s + 1)"
  using assms by (simp add: evaluateTrick_def Let_def)

lemma round_inv_play:
  assumes inv: "round_inv s" and mem: "c \<in> set (handOf s p)" and fc: "followCard s = None"
    and play: "playCard s c p = Inr (b, s')"
  shows "round_inv s'"
proof (cases "canPlayCard s c p")
  case False
  then show ?thesis using inv play by (simp add: playCard_def)
next
  case True
  obtain i where i: "findIndex (\<lambda>h. suit h = suit c \<and> rank h = rank c) (handOf s p) = Some i"
    and len: "Suc (length (playerHand (setHand p (splice1 i (handOf s p)) s)) +
                length (aiHand (setHand p (splice1 i (handOf s p)) s))) =
           length (playerHand s) + length (aiHand s)"
    using remove_played_card [OF mem] by blast
  define s1 where "s1 = setHand p (splice1 i (handOf s p)) s"
  have active: "gameActive s"
    using inv len by (auto simp: round_inv_def cardTotal_def split: if_splits)
  show ?thesis
  proof (cases "leadCard s")
    case None
    then have "s' = s1\<lparr>leadCard := Some c, leadPlayer := Some p,
                       playedCards := playedCards s1 @ [(c, p)],
                       currentPlayer := Some (if p = Player then Ai else Player)\<rparr>"
      using play True i by (simp add: playCard_def Let_def setHand_fields s1_def)
    then show ?thesis
      using inv len None fc
      by (simp add: round_inv_def cardTotal_def inFlightCards_def setHand_fields s1_def)
  next
    case (Some l)
    define s2 where "s2 = s1\<lparr>followCard := Some c, playedCards := playedCards s1 @ [(c, p)]\<rparr>"
    have l2: "leadCard s2 = Some l" and f2: "followCard s2 = Some c"
      using Some by (simp_all add: s2_def s1_def setHand_fields)
    obtain r s3 where ev: "evaluateTrick s2 = Inr (r, s3)"
      and eff: "playerHand s3 = playerHand s2" "aiHand s3 = aiHand s2"
        "length (trickHistory s3) = Suc (length (trickHistory s2))"
        "leadCard s3 = Some l" "followCard s3 = Some c"
        "gameActive s3 = (gameActive s2 \<and> currentTrick s2 \<noteq> 5)"
        "currentTrick s3 = (if currentTrick s2 = 5 then 5 else currentTrick s2 + 1)"
      using evaluateTrick_effect [OF l2 f2] by blast
    have "s' = s3"
      using play True i Some ev by (simp add: playCard_def Let_def setHand_fields s1_def s2_def)
    then show ?thesis
      using inv len Some fc eff active
      by (auto simp: round_inv_def cardTotal_def inFlightCards_def setHand_fields s1_def s2_def)
  qed
qed

lemma round_inv_step: "round_inv s \<Longrightarrow> step s a = Some s' \<Longrightarrow> round_inv s'"
proof (cases a)
  case (Play c p)
  assume "round_inv s" "step s a = Some s'"
  then show ?thesis
    using Play round_inv_play [of s c p]
    by (auto split: if_splits sum.splits)
next
  case Clear
  assume "round_inv s" "step s a = Some s'"
  then show ?thesis using Clear round_inv_clear by (auto split: if_splits)
qed

lemma round_inv_run: "round_inv s \<Longrightarrow> run s acts = Some s' \<Longrightarrow> round_inv s'"
proof (induction acts arbitrary: s)
  case Nil
  then show ?case by simp
next
  case (Cons a acts)
  then show ?case by (auto split: option.splits dest: round_inv_step)
qed

text \<open>
  C5 (as amended). In every state reached from \<^verbatim>\<open>startNewRound\<close> by the calls of
  \<open>step\<close> (a card is played from the hand of its side once the previous trick is
  cleared, and only a completed trick is cleared), the two hand sizes, twice the number
  of resolved tricks and the number of cards in flight add up to 10, and once the round
  is over the history holds exactly 5 tricks.
\<close>

theorem C5_card_conservation:
  assumes "run (startNewRound rnd s0) acts = Some s"
  shows "cardTotal s = 10 \<and> (\<not> gameActive s \<longrightarrow> length (trickHistory s) = 5)"
  using round_inv_run [OF round_inv_start assms] by (simp add: round_inv_def split: if_splits)

lemma full_round_end:
  "map_option (\<lambda>s. (gameActive s, aiScore s)) (run round1 full_round) = Some (False, 1)"
  by (simp add: round1_eq full_round_def game_simps)

theorem C5_card_conservation_witness:
  "map_option (\<lambda>s. (cardTotal s, gameActive s, length (trickHistory s))) (run round1 full_round)
     = Some (10, False, 5)"
proof -
  obtain s where s: "run round1 full_round = Some s" and e: "\<not> gameActive s"
    using full_round_end by (cases "run round1 full_round") auto
  show ?thesis
    using C5_card_conservation [of no_swap constructed full_round s] s e
    by (simp add: round1_def)
qed

text \<open>
  C5 as stated fails, in three ways, on calls that \<^verbatim>\<open>playCard\<close> accepts in \<open>round1\<close>.
  The player leads the ace of spades, which is not in the hand: no hand shrinks and one
  card is in flight (11). The player leads the 2 of clubs, the other side follows with
  the 7 of clubs, wins, and plays the 8 of clubs before the trick is cleared: the card
  is taken as a second follow card, and 7 cards in the hands stand beside 2 tricks in
  the history (11). The player leads the 2 of clubs and \<^verbatim>\<open>clearTrick\<close> is called before
  the follow card: the lead card is gone (9).
\<close>

theorem C5_card_total_counterexample:
  "map_option cardTotal (playAll round1 [(Card Spades Ace, Player)]) = Some 11 \<and>
   map_option cardTotal
     (playAll round1 [(Card Clubs R2, Player), (Card Clubs R7, Ai), (Card Clubs R8, Ai)])
     = Some 11 \<and>
   map_option cardTotal (map_option clearTrick (playAll round1 [(Card Clubs R2, Player)]))
     = Some 9"
  by (simp add: round1_eq game_simps)

subsection \<open>The Grandmaster follows\<close>

lemma lowest_fold:
  "foldl (\<lambda>lowest card. if getValue card < getValue lowest then card else lowest) c cs
     \<in> set (c # cs) \<and>
   (\<forall>x \<in> set (c # cs).
      getValue (foldl (\<lambda>lowest card. if getValue card < getValue lowest then card else lowest)
                  c cs) \<le> getValue x)"
proof (induction cs arbitrary: c)
  case Nil
  then show ?case by simp
next
  case (Cons d cs)
  show ?case
    using Cons.IH [of d] Cons.IH [of c] by (auto simp: order.trans)
qed

lemma getLowestCard_least:
  assumes "cards \<noteq> []"
  shows "\<exists>c. getLowestCard cards = Inr c \<and> c \<in> set cards \<and>
           (\<forall>x \<in> set cards. getValue c \<le> getValue x)"
proof (cases cards)
  case Nil
  with assms show ?thesis by simp
next
  case (Cons d ds)
  then show ?thesis
    using lowest_fold [of d ds] by (simp add: getLowestCard_def)
qed

text \<open>
  C8. Under the Grandmaster difficulty, when the computer follows on tricks 1 to 4 and
  its hand has a card of the lead suit above the lead card, it plays such a card, and
  none of them has a lower value. With the 9 of clubs and the 7 of diamonds against a
  led 5 of clubs it plays the 9 of clubs.
\<close>

theorem C8_grandmaster_takes_trick:
  assumes level: "aiDifficulty g = ''grandmaster''"
    and trick: "1 \<le> currentTrick g \<and> currentTrick g \<le> 4"
    and lead: "leadCard g = Some l"
    and can_win: "\<exists>c \<in> set (aiHand g). suit c = suit l \<and> getValue c > getValue l"
  shows "\<exists>c a'. chooseCard g a randomIndex = Inr (Some c, a') \<and>
           c \<in> set (aiHand g) \<and> suit c = suit l \<and> getValue c > getValue l \<and>
           (\<forall>c' \<in> set (aiHand g).
              suit c' = suit l \<and> getValue c' > getValue l \<longrightarrow> getValue c \<le> getValue c')"
proof -
  define sameSuit where "sameSuit = filter (\<lambda>c. suit c = suit l) (aiHand g)"
  define winning where "winning = filter (\<lambda>c. getValue c > getValue l) sameSuit"
  have same_ne: "sameSuit \<noteq> []"
    using can_win by (auto simp: sameSuit_def filter_empty_conv)
  have win_ne: "winning \<noteq> []"
    using can_win by (auto simp: winning_def sameSuit_def filter_empty_conv)
  have valid: "getValidCards g Ai = sameSuit"
    using lead same_ne by (simp add: getValidCards_def handOf_def sameSuit_def Let_def)
  have again: "filter (\<lambda>c. suit c = suit l) sameSuit = sameSuit"
    by (simp add: sameSuit_def)
  obtain c where c: "getLowestCard winning = Inr c" and mem: "c \<in> set winning"
    and least: "\<forall>x \<in> set winning. getValue c \<le> getValue x"
    using getLowestCard_least [OF win_ne] by blast
  have follow: "grandmasterFollow g sameSuit (currentTrick g) = Inr c"
    using lead same_ne win_ne c
    by (simp add: grandmasterFollow_def Let_def again winning_def [symmetric])
  have "chooseCardGrandmaster g a =
          Inr (Some c, updateOpponentVoids g (updatePlayedCards g a))"
    using trick lead follow by (simp add: chooseCardGrandmaster_def Let_def valid)
  then have "chooseCard g a randomIndex =
          Inr (Some c, updateOpponentVoids g (updatePlayedCards g a))"
    using level by (simp add: chooseCard_def)
  moreover have "c \<in> set (aiHand g) \<and> suit c = suit l \<and> getValue c > getValue l"
    using mem by (simp add: winning_def sameSuit_def)
  moreover have "\<forall>c' \<in> set (aiHand g).
      suit c' = suit l \<and> getValue c' > getValue l \<longrightarrow> getValue c \<le> getValue c'"
    using least by (simp add: winning_def sameSuit_def)
  ultimately show ?thesis by blast
qed

theorem C8_grandmaster_takes_trick_witness:
  "fst (projr (chooseCard
      (constructed\<lparr>aiHand := [Card Clubs R9, Card Diamonds R7],
                   leadCard := Some (Card Clubs R5), currentTrick := 1,
                   aiDifficulty := ''grandmaster''\<rparr>)
      newAI 0)) = Some (Card Clubs R9)"
  using C8_grandmaster_takes_trick [of
      "constructed\<lparr>aiHand := [Card Clubs R9, Card Diamonds R7],
                   leadCard := Some (Card Clubs R5), currentTrick := 1,
                   aiDifficulty := ''grandmaster''\<rparr>"
      "Card Clubs R5" newAI 0]
  by (auto simp: constructed_def getValue_def)

subsection \<open>Loading the settings\<close>

text \<open>
  C9. A stored score goal that is not a number is not treated as absent:
  \<^verbatim>\<open>loadSettings\<close> stores \<^verbatim>\<open>parseInt('abc')\<close>, which is \<^verbatim>\<open>NaN\<close>, as the score goal,
  where an empty store leaves the default 5.
\<close>

theorem C9_malformed_goal_installed:
  "scoreGoal (newGameState malformed_store) = NaN \<and> scoreGoal (newGameState Map.empty) = Num 5"
  by (simp add: newGameState_def loadSettings_def malformed_store_def whenTruthy_def parseInt_def
      isWhiteSpace_def digitOf_def digitValue_def constructed_def Let_def)

subsection \<open>Redeal of an empty hand\<close>

text \<open>
  C10. \<^verbatim>\<open>handQualifiesForRedeal\<close> applied to the empty hand returns true: the maximum
  of no values is \<^verbatim>\<open>-Infinity\<close>, which is at most 9.
\<close>

theorem C10_empty_hand_qualifies: "handQualifiesForRedeal [] = True"
  by (simp add: handQualifiesForRedeal_def math_max_def)

end
